theory Spec2Isabelle
  imports Complex_Main "HOL-Library.AList"
begin

section \<open>Exceptions and values\<close>

text \<open>
  The exceptions that the module raises or lets through, as values. A function of
  the module that can raise returns \<open>error + 'a\<close>, with \<open>Inl\<close> the exception.
  \<open>CalledProcessError\<close> carries the exit status and the command.
\<close>

datatype error =
    RuntimeError string
  | FileNotFoundError
  | CalledProcessError int string
  | PermissionError
  | UnicodeDecodeError
  | AttributeError string
  | IndexError

text \<open>
  The values that the module stores in dictionaries; a Python \<open>float\<close> is read as
  a real number, the module only copies and subtracts them. A dictionary with string
  keys is the list of its items in insertion order; \<open>d[k] = v\<close> replaces the value
  of a key that is there and adds a new key at the end.
\<close>

datatype pyval =
    PyInt int
  | PyFloat real
  | PyBool bool
  | PyStr string
  | PyList "pyval list"

type_synonym dict = "(string \<times> pyval) list"

definition setitem :: "dict \<Rightarrow> string \<Rightarrow> pyval \<Rightarrow> dict" where
  "setitem d k v = AList.update k v d"


section \<open>LogStep and Logger\<close>

record LogStep =
  epoch :: int
  eval_acc :: real
  sample_time :: real
  load_time :: real
  forward_time :: real
  backward_time :: real
  cur_epoch_time :: real
  acc_epoch_time :: real
  evaluate_time :: real
  loss :: real

text \<open>
  \<open>LogStep.dict\<close> returns the attribute dictionary of the object, which holds the
  ten fields in the order of their declaration.
\<close>

definition LogStep_dict :: "LogStep \<Rightarrow> dict" where
  "LogStep_dict self =
     [(''epoch'', PyInt (epoch self)),
      (''eval_acc'', PyFloat (eval_acc self)),
      (''sample_time'', PyFloat (sample_time self)),
      (''load_time'', PyFloat (load_time self)),
      (''forward_time'', PyFloat (forward_time self)),
      (''backward_time'', PyFloat (backward_time self)),
      (''cur_epoch_time'', PyFloat (cur_epoch_time self)),
      (''acc_epoch_time'', PyFloat (acc_epoch_time self)),
      (''evaluate_time'', PyFloat (evaluate_time self)),
      (''loss'', PyFloat (loss self))]"

record Logger =
  steps :: "LogStep list"

definition Logger_init :: Logger where
  "Logger_init = \<lparr>steps = []\<rparr>"

definition Logger_append :: "Logger \<Rightarrow> LogStep \<Rightarrow> Logger" where
  "Logger_append self step = self\<lparr>steps := steps self @ [step]\<rparr>"

text \<open>
  The loop of \<open>Logger.list\<close>: \<open>ret\<close> grows by the dictionary of each step in
  turn. The method returns \<open>ret\<close>; the model returns the logger after the call
  beside it.
\<close>

fun Logger_list_loop :: "LogStep list \<Rightarrow> dict list \<Rightarrow> dict list" where
  "Logger_list_loop [] ret = ret"
| "Logger_list_loop (step # rest) ret = Logger_list_loop rest (ret @ [LogStep_dict step])"

definition Logger_list :: "Logger \<Rightarrow> dict list \<times> Logger" where
  "Logger_list self = (Logger_list_loop (steps self) [], self)"

text \<open>A logger after a sequence of appends, first to last.\<close>

fun Logger_appends :: "Logger \<Rightarrow> LogStep list \<Rightarrow> Logger" where
  "Logger_appends self [] = self"
| "Logger_appends self (step # rest) = Logger_appends (Logger_append self step) rest"

section \<open>Timer\<close>

text \<open>
  The three attributes of a \<open>Timer\<close> object; \<open>None\<close> is Python's \<open>None\<close>.
  The values of \<open>time.time()\<close> are read as real numbers, so that the subtraction
  of two readings is exact.
\<close>

record Timer =
  start_time :: "real option"
  last_record :: "real option"
  end_time :: "real option"

definition Timer_init :: Timer where
  "Timer_init = \<lparr>start_time = None, last_record = None, end_time = None\<rparr>"

text \<open>
  The system clock is the sequence of the readings that successive calls of
  \<open>time.time()\<close> return: the call number \<open>k\<close> returns \<open>clock k\<close>. The state
  of a timer is the object together with the number of readings taken so far.
\<close>

type_synonym clock = "nat \<Rightarrow> real"

type_synonym timer_state = "Timer \<times> nat"

definition time_time :: "clock \<Rightarrow> nat \<Rightarrow> real \<times> nat" where
  "time_time clock k = (clock k, Suc k)"

text \<open>
  Every method returns its outcome (\<open>Inl\<close> the exception raised, \<open>Inr\<close> the value
  returned) and the state it leaves behind, also when it raises.
\<close>

definition Timer_start :: "clock \<Rightarrow> timer_state \<Rightarrow> (error + unit) \<times> timer_state" where
  "Timer_start clock s =
     (case s of (self, k) \<Rightarrow>
        if start_time self \<noteq> None then
          (Inl (RuntimeError
             ''Timer is already running. Use stop() to stop it before starting again.''),
           (self, k))
        else
          (case time_time clock k of (t1, k1) \<Rightarrow>
           case time_time clock k1 of (t2, k2) \<Rightarrow>
             (Inr (), (self\<lparr>start_time := Some t1, last_record := Some t2\<rparr>, k2))))"

definition Timer_stop :: "clock \<Rightarrow> timer_state \<Rightarrow> (error + real) \<times> timer_state" where
  "Timer_stop clock s =
     (case s of (self, k) \<Rightarrow>
        case start_time self of
          None \<Rightarrow>
            (Inl (RuntimeError ''Timer is not running. Use start() to start it.''), (self, k))
        | Some started \<Rightarrow>
            (case time_time clock k of (ended, k1) \<Rightarrow>
               (Inr (ended - started),
                (self\<lparr>end_time := Some ended\<rparr>
                     \<lparr>start_time := None, end_time := None, last_record := None\<rparr>, k1))))"

definition Timer_record :: "clock \<Rightarrow> timer_state \<Rightarrow> (error + real) \<times> timer_state" where
  "Timer_record clock s =
     (case s of (self, k) \<Rightarrow>
        case last_record self of
          None \<Rightarrow>
            (Inl (RuntimeError ''Timer is not running. Use start() to start it.''), (self, k))
        | Some previous \<Rightarrow>
            (case time_time clock k of (current, k1) \<Rightarrow>
             case time_time clock k1 of (t2, k2) \<Rightarrow>
               (Inr (current - previous), (self\<lparr>last_record := Some t2\<rparr>, k2))))"

text \<open>
  A caller's history of a timer: a list of method calls on a fresh object. A call
  that raises leaves the state it returns (the exception goes to the caller, the
  object stays).
\<close>

datatype Timer_call = Start | Stop | Record

fun Timer_step :: "clock \<Rightarrow> timer_state \<Rightarrow> Timer_call \<Rightarrow> timer_state" where
  "Timer_step clock s Start = snd (Timer_start clock s)"
| "Timer_step clock s Stop = snd (Timer_stop clock s)"
| "Timer_step clock s Record = snd (Timer_record clock s)"

fun Timer_run :: "clock \<Rightarrow> timer_state \<Rightarrow> Timer_call list \<Rightarrow> timer_state" where
  "Timer_run clock s [] = s"
| "Timer_run clock s (c # cs) = Timer_run clock (Timer_step clock s c) cs"

text \<open>\<open>n\<close> consecutive calls of \<open>record()\<close>; the first exception ends the series.\<close>

fun Timer_record_n :: "clock \<Rightarrow> nat \<Rightarrow> timer_state \<Rightarrow> (error + real list) \<times> timer_state" where
  "Timer_record_n clock 0 s = (Inr [], s)"
| "Timer_record_n clock (Suc n) s =
     (case Timer_record clock s of
        (Inl e, s1) \<Rightarrow> (Inl e, s1)
      | (Inr d, s1) \<Rightarrow>
          (case Timer_record_n clock n s1 of
             (Inl e, s2) \<Rightarrow> (Inl e, s2)
           | (Inr ds, s2) \<Rightarrow> (Inr (d # ds), s2)))"

text \<open>
  What the methods keep true of a timer made by the constructor: the end timestamp
  is clear between calls; an idle timer has no last-record timestamp; a running one
  was started at some earlier reading and its last-record timestamp is the latest
  reading taken.
\<close>

definition Timer_inv :: "clock \<Rightarrow> timer_state \<Rightarrow> bool" where
  "Timer_inv clock s =
     (case s of (self, k) \<Rightarrow>
        end_time self = None \<and>
        (case start_time self of
           None \<Rightarrow> last_record self = None
         | Some t \<Rightarrow> (\<exists>i. i + 2 \<le> k \<and> t = clock i) \<and> last_record self = Some (clock (k - 1))))"

section \<open>Config and the module's current configuration\<close>

text \<open>
  The object that the argument parser returns: one attribute for each option of
  \<open>get_args\<close>.
\<close>

record Namespace =
  sample_mode :: string
  batch_size :: int
  fanouts :: "int list"
  num_epoch :: int
  hid_size :: int
  num_layers :: int
  num_head :: int
  lr :: real
  weight_decay :: real
  dropout :: real
  world_size :: int
  num_partition :: int
  graph_name :: string
  data_dir :: string
  model :: string
  log_file :: string
  eval :: bool

text \<open>
  A \<open>Config\<close> object after its constructor: the declared fields in the order of
  their declaration, and \<open>num_layers\<close>, which the constructor assigns without a
  declaration. The class keeps its own \<open>__init__\<close>, and a declaration without a
  default value makes no class attribute, so a declared field exists on an object
  only once it is assigned: \<open>world_size\<close> is \<open>None\<close> where the object has no
  such attribute.
\<close>

record Config =
  sample_mode :: string
  batch_size :: int
  fanouts :: "int list"
  num_epoch :: int
  hid_size :: int
  num_head :: int
  lr :: real
  weight_decay :: real
  dropout :: real
  world_size :: "int option"
  num_partition :: int
  graph_name :: string
  data_dir :: string
  model :: string
  log_file :: string
  eval :: bool
  num_layers :: int

definition Config_init :: "Namespace \<Rightarrow> Config" where
  "Config_init args =
     \<lparr>sample_mode = Namespace.sample_mode args,
      batch_size = Namespace.batch_size args,
      fanouts = Namespace.fanouts args,
      num_epoch = Namespace.num_epoch args,
      hid_size = Namespace.hid_size args,
      num_head = Namespace.num_head args,
      lr = Namespace.lr args,
      weight_decay = Namespace.weight_decay args,
      dropout = Namespace.dropout args,
      world_size = None,
      num_partition = Namespace.num_partition args,
      graph_name = Namespace.graph_name args,
      data_dir = Namespace.data_dir args,
      model = Namespace.model args,
      log_file = Namespace.log_file args,
      eval = Namespace.eval args,
      num_layers = Namespace.num_layers args\<rparr>"

text \<open>Reading \<open>config.world_size\<close>: an attribute that is not there raises.\<close>

definition Config_get_world_size :: "Config \<Rightarrow> error + int" where
  "Config_get_world_size self =
     (case world_size self of
        None \<Rightarrow> Inl (AttributeError ''world_size'')
      | Some v \<Rightarrow> Inr v)"

text \<open>The module's global variable \<open>gconfig\<close>, \<open>None\<close> when the module is loaded.\<close>

record globals =
  gconfig :: "Config option"

definition globals_init :: globals where
  "globals_init = \<lparr>gconfig = None\<rparr>"

definition Config_get_global_config :: "globals \<Rightarrow> Config option \<times> globals" where
  "Config_get_global_config g = (gconfig g, g)"

definition Config_set_global_config :: "globals \<Rightarrow> Config \<Rightarrow> globals" where
  "Config_set_global_config g config = g\<lparr>gconfig := Some config\<rparr>"

text \<open>The module's state after a sequence of registrations, first to last.\<close>

fun set_global_configs :: "globals \<Rightarrow> Config list \<Rightarrow> globals" where
  "set_global_configs g [] = g"
| "set_global_configs g (config # rest) = set_global_configs (Config_set_global_config g config) rest"

section \<open>Dataset\<close>

text \<open>
  Of the graph handle, which belongs to the graph library, the module reads the
  number of nodes and the number of edges. Tensors are values of a type \<open>'t\<close> of the
  tensor library.
\<close>

record DGLGraph =
  num_nodes :: int
  num_edges :: int

record 't Dataset =
  graph :: DGLGraph
  feat :: 't
  label :: 't
  train_mask :: 't
  val_mask :: 't
  test_mask :: 't
  num_classes :: int
  in_feats :: int

text \<open>
  \<open>Dataset.to\<close> moves four tensors in turn with the tensor library's \<open>to\<close>,
  here the parameter \<open>tensor_to\<close>, which returns the moved tensor or raises. An
  exception ends the method where it is raised, with the assignments before it
  done. The method returns nothing; the model returns its outcome and the object
  after the call.
\<close>

definition Dataset_to ::
  "('t \<Rightarrow> 'd \<Rightarrow> error + 't) \<Rightarrow> 't Dataset \<Rightarrow> 'd \<Rightarrow> (error + unit) \<times> 't Dataset" where
  "Dataset_to tensor_to self device =
     (case tensor_to (label self) device of
        Inl e \<Rightarrow> (Inl e, self)
      | Inr moved_label \<Rightarrow>
     let self = self\<lparr>label := moved_label\<rparr> in
     case tensor_to (train_mask self) device of
        Inl e \<Rightarrow> (Inl e, self)
      | Inr moved_train \<Rightarrow>
     let self = self\<lparr>train_mask := moved_train\<rparr> in
     case tensor_to (val_mask self) device of
        Inl e \<Rightarrow> (Inl e, self)
      | Inr moved_val \<Rightarrow>
     let self = self\<lparr>val_mask := moved_val\<rparr> in
     case tensor_to (test_mask self) device of
        Inl e \<Rightarrow> (Inl e, self)
      | Inr moved_test \<Rightarrow> (Inr (), self\<lparr>test_mask := moved_test\<rparr>))"

section \<open>Text\<close>

text \<open>
  Text and bytes are lists of characters, a character of text being a code point
  below 256. \<open>str.strip()\<close> removes the characters that Python counts as white
  space from both ends, \<open>bytes.strip()\<close> the six of ASCII.
\<close>

definition str_isspace :: "char \<Rightarrow> bool" where
  "str_isspace c \<longleftrightarrow>
     c \<in> set [CHR 0x09, CHR 0x0A, CHR 0x0B, CHR 0x0C, CHR 0x0D, CHR 0x1C, CHR 0x1D, CHR 0x1E,
              CHR 0x1F, CHR 0x20, CHR 0x85, CHR 0xA0]"

definition bytes_isspace :: "char \<Rightarrow> bool" where
  "bytes_isspace c \<longleftrightarrow> c \<in> set [CHR 0x09, CHR 0x0A, CHR 0x0B, CHR 0x0C, CHR 0x0D, CHR 0x20]"

definition strip_with :: "(char \<Rightarrow> bool) \<Rightarrow> string \<Rightarrow> string" where
  "strip_with sp s = rev (dropWhile sp (rev (dropWhile sp s)))"

definition str_strip :: "string \<Rightarrow> string" where
  "str_strip s = strip_with str_isspace s"

definition bytes_strip :: "string \<Rightarrow> string" where
  "bytes_strip s = strip_with bytes_isspace s"

text \<open>
  \<open>s.split(sep)\<close> for a separator of one character: the pieces between the
  separators, in order; \<open>piece\<close> holds the current piece, last character first.
\<close>

fun str_split_loop :: "char \<Rightarrow> string \<Rightarrow> string \<Rightarrow> string list" where
  "str_split_loop sep piece [] = [rev piece]"
| "str_split_loop sep piece (c # cs) =
     (if c = sep then rev piece # str_split_loop sep [] cs
      else str_split_loop sep (c # piece) cs)"

definition str_split :: "string \<Rightarrow> char \<Rightarrow> string list" where
  "str_split s sep = str_split_loop sep [] s"

text \<open>\<open>s.find(sub)\<close>: the lowest index at which \<open>sub\<close> starts in \<open>s\<close>, or \<open>-1\<close>.\<close>

fun str_find_from :: "string \<Rightarrow> string \<Rightarrow> nat \<Rightarrow> int" where
  "str_find_from [] sub i = (if sub = [] then int i else - 1)"
| "str_find_from (c # cs) sub i =
     (if take (length sub) (c # cs) = sub then int i else str_find_from cs sub (Suc i))"

definition str_find :: "string \<Rightarrow> string \<Rightarrow> int" where
  "str_find s sub = str_find_from s sub 0"

text \<open>\<open>s[i:]\<close>: a negative \<open>i\<close> counts from the end, and the bounds are clipped.\<close>

definition str_slice_from :: "string \<Rightarrow> int \<Rightarrow> string" where
  "str_slice_from s i = (if i < 0 then drop (nat (int (length s) + i)) s else drop (nat i) s)"

section \<open>Probes of the host\<close>

text \<open>
  What a finished process leaves: its exit status and what it wrote, in bytes or,
  once decoded, in text. A program that is started by its name is not installed, or
  is there but may not be executed, or runs and leaves a finished process.
\<close>

record CompletedProcess =
  returncode :: int
  stdout :: string
  stderr :: string

datatype program = NotInstalled | NotExecutable | Runs CompletedProcess

text \<open>
  The host is what starting each of the two inventory tools gives there.
  \<open>nvidia-smi\<close> is started by its name. \<open>lscpu\<close> is started through the
  shell, and of it the host gives what the process of the shell leaves, \<open>None\<close>
  where \<open>lscpu\<close> is not installed.
\<close>

record host =
  nvidia_smi :: program
  lscpu :: "CompletedProcess option"

text \<open>
  The text mode of \<open>subprocess\<close> decodes what the process wrote and then
  replaces every carriage return with a line feed after it, and after that every
  carriage return left, by one line feed.
\<close>

fun replace_crlf :: "string \<Rightarrow> string" where
  "replace_crlf [] = []"
| "replace_crlf [c] = [c]"
| "replace_crlf (c # d # cs) =
     (if c = CHR 0x0D \<and> d = CHR 0x0A then CHR 0x0A # replace_crlf cs
      else c # replace_crlf (d # cs))"

definition replace_cr :: "string \<Rightarrow> string" where
  "replace_cr s = map (\<lambda>c. if c = CHR 0x0D then CHR 0x0A else c) s"

definition translate_newlines :: "string \<Rightarrow> string" where
  "translate_newlines s = replace_cr (replace_crlf s)"

text \<open>
  \<open>subprocess.run\<close> of a program by its name, without a shell, with both
  pipes captured and \<open>text=True\<close>. A program that is not found raises
  \<open>FileNotFoundError\<close>, one that may not be executed \<open>PermissionError\<close>.
  Otherwise the process runs to its end, whatever its exit status; its standard
  output and then its standard error are decoded with the codec of the locale, the
  parameter \<open>text_decode\<close>, which returns the text of the bytes or raises
  \<open>UnicodeDecodeError\<close>, and the finished process is returned with the two texts.
\<close>

definition subprocess_run ::
  "(string \<Rightarrow> error + string) \<Rightarrow> program \<Rightarrow> error + CompletedProcess" where
  "subprocess_run text_decode prog =
     (case prog of
        NotInstalled \<Rightarrow> Inl FileNotFoundError
      | NotExecutable \<Rightarrow> Inl PermissionError
      | Runs result \<Rightarrow>
          (case text_decode (stdout result) of
             Inl e \<Rightarrow> Inl e
           | Inr out \<Rightarrow>
          case text_decode (stderr result) of
             Inl e \<Rightarrow> Inl e
           | Inr err \<Rightarrow>
             Inr \<lparr>returncode = returncode result, stdout = translate_newlines out,
                  stderr = translate_newlines err\<rparr>))"

text \<open>
  \<open>subprocess.check_output(cmd, shell=True)\<close>: the shell runs the command, and a
  command that it does not find makes it exit with status 127; an exit status other
  than zero raises \<open>CalledProcessError\<close>; otherwise the bytes of the standard
  output are returned.
\<close>

definition subprocess_check_output_shell :: "string \<Rightarrow> CompletedProcess option \<Rightarrow> error + string" where
  "subprocess_check_output_shell cmd program =
     (case program of
        None \<Rightarrow> Inl (CalledProcessError 127 cmd)
      | Some result \<Rightarrow>
          if returncode result \<noteq> 0 then Inl (CalledProcessError (returncode result) cmd)
          else Inr (stdout result))"

text \<open>
  \<open>get_cuda_gpu_model\<close> returns the list of model names; the model returns the
  lines it prints beside it. Of the exceptions of \<open>subprocess.run\<close> the function
  catches \<open>FileNotFoundError\<close>; any other leaves the function.
\<close>

definition get_cuda_gpu_model ::
  "(string \<Rightarrow> error + string) \<Rightarrow> host \<Rightarrow> error + (string list \<times> string list)" where
  "get_cuda_gpu_model text_decode h =
     (case subprocess_run text_decode (nvidia_smi h) of
        Inl FileNotFoundError \<Rightarrow>
          Inr ([], [''nvidia-smi not found. Make sure NVIDIA drivers are installed and accessible.''])
      | Inl e \<Rightarrow> Inl e
      | Inr result \<Rightarrow>
          if returncode result \<noteq> 0 then
            Inr ([], [''Error executing nvidia-smi: '' @ stderr result])
          else
            Inr (str_split (str_strip (stdout result)) (CHR 0x0A), []))"

text \<open>
  \<open>get_cpu_model\<close>. The codec of \<open>bytes.decode()\<close> is the parameter \<open>decode\<close>:
  it returns the text of the bytes or raises \<open>UnicodeDecodeError\<close>.
\<close>

definition get_cpu_model :: "(string \<Rightarrow> error + string) \<Rightarrow> host \<Rightarrow> error + string" where
  "get_cpu_model decode h =
     (case subprocess_check_output_shell ''lscpu'' (lscpu h) of
        Inl e \<Rightarrow> Inl e
      | Inr out \<Rightarrow>
     case decode (bytes_strip out) of
        Inl e \<Rightarrow> Inl e
      | Inr ret \<Rightarrow>
     let idx = str_find ret ''Model name:'' in
     case str_split (str_strip (str_slice_from ret (idx + 11))) (CHR 0x0A) of
        [] \<Rightarrow> Inl IndexError
      | cpu_model # _ \<Rightarrow> Inr cpu_model)"

section \<open>Metadata builders\<close>

definition get_train_meta :: "Config \<Rightarrow> dict" where
  "get_train_meta config =
     (let ret = [];
          ret = setitem ret ''weight_decay'' (PyFloat (weight_decay config));
          ret = setitem ret ''learning_rate'' (PyFloat (lr config));
          ret = setitem ret ''dropout'' (PyFloat (dropout config))
      in ret)"

definition get_full_meta ::
  "(string \<Rightarrow> error + string) \<Rightarrow> host \<Rightarrow> Config \<Rightarrow> 't Dataset \<Rightarrow> error + dict" where
  "get_full_meta decode h config data =
     (let ret = [];
          ret = setitem ret ''graph_name'' (PyStr (graph_name config));
          ret = setitem ret ''train_mode'' (PyStr ''full'')
      in
      case get_cpu_model decode h of
        Inl e \<Rightarrow> Inl e
      | Inr cpu_model \<Rightarrow>
      let ret = setitem ret ''cpu_model'' (PyStr cpu_model);
          ret = setitem ret ''num_node'' (PyInt (num_nodes (graph data)));
          ret = setitem ret ''num_edge'' (PyInt (num_edges (graph data)));
          ret = setitem ret ''feat_width'' (PyInt (in_feats data));
          ret = setitem ret ''num_epoch'' (PyInt (num_epoch config));
          ret = setitem ret ''num_partition'' (PyInt (num_partition config))
      in Inr ret)"

definition get_minibatch_meta ::
  "(string \<Rightarrow> error + string) \<Rightarrow> host \<Rightarrow> Config \<Rightarrow> 't Dataset \<Rightarrow> error + dict" where
  "get_minibatch_meta decode h config data =
     (let ret = [];
          ret = setitem ret ''graph_name'' (PyStr (graph_name config));
          ret = setitem ret ''train_mode'' (PyStr ''minibatch'');
          ret = setitem ret ''num_node'' (PyInt (num_nodes (graph data)));
          ret = setitem ret ''num_edge'' (PyInt (num_edges (graph data)))
      in
      case get_cpu_model decode h of
        Inl e \<Rightarrow> Inl e
      | Inr cpu_model \<Rightarrow>
      let ret = setitem ret ''cpu_model'' (PyStr cpu_model);
          ret = setitem ret ''feat_width'' (PyInt (in_feats data));
          ret = setitem ret ''batch_size'' (PyInt (batch_size config));
          ret = setitem ret ''fanouts'' (PyList (map PyInt (fanouts config)));
          ret = setitem ret ''num_epoch'' (PyInt (num_epoch config));
          ret = setitem ret ''num_partition'' (PyInt (num_partition config))
      in Inr ret)"

text \<open>
  \<open>get_quiver_meta\<close> returns the dictionary; the model returns the lines that the
  GPU probe prints beside it. The parameter \<open>decode\<close> is the codec of the CPU
  probe, \<open>text_decode\<close> that of the GPU probe.
\<close>

definition get_quiver_meta ::
  "(string \<Rightarrow> error + string) \<Rightarrow> (string \<Rightarrow> error + string) \<Rightarrow> host \<Rightarrow> Config \<Rightarrow> 't Dataset \<Rightarrow>
     error + (dict \<times> string list)" where
  "get_quiver_meta decode text_decode h config data =
     (let ret = [];
          ret = setitem ret ''graph_name'' (PyStr (graph_name config));
          ret = setitem ret ''system_name'' (PyStr ''quiver'');
          ret = setitem ret ''train_mode'' (PyStr ''minibatch'');
          ret = setitem ret ''sample_mode'' (PyStr (sample_mode config));
          ret = setitem ret ''num_node'' (PyInt (num_nodes (graph data)));
          ret = setitem ret ''num_edge'' (PyInt (num_edges (graph data)))
      in
      case get_cpu_model decode h of
        Inl e \<Rightarrow> Inl e
      | Inr cpu_model \<Rightarrow>
      let ret = setitem ret ''cpu_model'' (PyStr cpu_model) in
      case get_cuda_gpu_model text_decode h of
        Inl e \<Rightarrow> Inl e
      | Inr (gpu_model, printed) \<Rightarrow>
      let ret = setitem ret ''gpu_model'' (PyList (map PyStr gpu_model));
          ret = setitem ret ''feat_width'' (PyInt (in_feats data));
          ret = setitem ret ''batch_size'' (PyInt (batch_size config));
          ret = setitem ret ''fanouts'' (PyList (map PyInt (fanouts config)));
          ret = setitem ret ''num_epoch'' (PyInt (num_epoch config));
          ret = setitem ret ''num_partition'' (PyInt (num_partition config))
      in Inr (ret, printed))"

section \<open>Concrete inputs\<close>

text \<open>
  Two steps of a log (epoch 0 with loss 1.2 and accuracy 0.3, epoch 1 with loss 1.0
  and accuracy 0.4), the defaults of the argument parser with a data directory, a
  data set of 10 nodes, 20 edges and feature width 8 whose tensors are lists of
  integers, a second configuration and a second data set that differ from these
  in every value that the minibatch builder copies, a host whose two inventory
  tools run and list one CPU and two accelerators, and the ASCII codec, which
  returns bytes below 128 as they are and raises on any other.
\<close>

definition step_0 :: LogStep where
  "step_0 =
     \<lparr>epoch = 0, eval_acc = 3 / 10, sample_time = 1 / 2, load_time = 1 / 4,
      forward_time = 1, backward_time = 2, cur_epoch_time = 4, acc_epoch_time = 4,
      evaluate_time = 1 / 2, loss = 12 / 10\<rparr>"

definition step_1 :: LogStep where
  "step_1 =
     \<lparr>epoch = 1, eval_acc = 4 / 10, sample_time = 1 / 2, load_time = 1 / 4,
      forward_time = 1, backward_time = 2, cur_epoch_time = 4, acc_epoch_time = 8,
      evaluate_time = 1 / 2, loss = 1\<rparr>"

definition default_args :: Namespace where
  "default_args =
     \<lparr>Namespace.sample_mode = ''gpu'', Namespace.batch_size = 1024,
      Namespace.fanouts = [15, 15, 15], Namespace.num_epoch = 1, Namespace.hid_size = 256,
      Namespace.num_layers = 3, Namespace.num_head = 4, Namespace.lr = 5 / 1000,
      Namespace.weight_decay = 5 / 10000, Namespace.dropout = 1 / 2, Namespace.world_size = 1,
      Namespace.num_partition = 1, Namespace.graph_name = ''ogbn-arxiv'',
      Namespace.data_dir = ''/data'', Namespace.model = ''gat'',
      Namespace.log_file = ''log.json'', Namespace.eval = True\<rparr>"

definition small_data :: "int list Dataset" where
  "small_data =
     \<lparr>graph = \<lparr>num_nodes = 10, num_edges = 20\<rparr>, feat = [3, 4], label = [0, 1],
      train_mask = [0], val_mask = [1], test_mask = [2], num_classes = 2, in_feats = 8\<rparr>"

definition other_config :: Config where
  "other_config =
     (Config_init default_args)\<lparr>batch_size := 512, fanouts := [10, 5], graph_name := ''reddit''\<rparr>"

definition other_data :: "int list Dataset" where
  "other_data =
     \<lparr>graph = \<lparr>num_nodes = 3, num_edges = 4\<rparr>, feat = [], label = [1], train_mask = [0],
      val_mask = [1], test_mask = [2], num_classes = 2, in_feats = 2\<rparr>"

definition ascii_decode :: "string \<Rightarrow> error + string" where
  "ascii_decode b =
     (if list_all (\<lambda>c. (of_char c :: nat) < 128) b then Inr b else Inl UnicodeDecodeError)"

definition good_host :: host where
  "good_host =
     \<lparr>nvidia_smi = Runs \<lparr>returncode = 0, stdout = ''Tesla V100\<newline>Tesla T4\<newline>'', stderr = ''''\<rparr>,
      lscpu = Some \<lparr>returncode = 0,
                    stdout = ''Architecture: x86_64\<newline>Model name:   Intel(R) Xeon(R)\<newline>Stepping: 1\<newline>'',
                    stderr = ''''\<rparr>\<rparr>"

section \<open>Properties of the Logger\<close>

lemma Logger_list_loop_map: "Logger_list_loop xs ret = ret @ map LogStep_dict xs"
  by (induction xs arbitrary: ret) simp_all

lemma steps_Logger_appends: "steps (Logger_appends self xs) = steps self @ xs"
  by (induction xs arbitrary: self) (simp_all add: Logger_append_def)

lemma Logger_list_steps: "Logger_list self = (map LogStep_dict (steps self), self)"
  by (simp add: Logger_list_def Logger_list_loop_map)

lemma LogStep_dict_keys:
  "map fst (LogStep_dict step) =
     [''epoch'', ''eval_acc'', ''sample_time'', ''load_time'', ''forward_time'',
      ''backward_time'', ''cur_epoch_time'', ''acc_epoch_time'', ''evaluate_time'', ''loss'']"
  by (simp add: LogStep_dict_def)

lemma LogStep_dict_values:
  "map_of (LogStep_dict step) ''epoch'' = Some (PyInt (epoch step))"
  "map_of (LogStep_dict step) ''eval_acc'' = Some (PyFloat (eval_acc step))"
  "map_of (LogStep_dict step) ''sample_time'' = Some (PyFloat (sample_time step))"
  "map_of (LogStep_dict step) ''load_time'' = Some (PyFloat (load_time step))"
  "map_of (LogStep_dict step) ''forward_time'' = Some (PyFloat (forward_time step))"
  "map_of (LogStep_dict step) ''backward_time'' = Some (PyFloat (backward_time step))"
  "map_of (LogStep_dict step) ''cur_epoch_time'' = Some (PyFloat (cur_epoch_time step))"
  "map_of (LogStep_dict step) ''acc_epoch_time'' = Some (PyFloat (acc_epoch_time step))"
  "map_of (LogStep_dict step) ''evaluate_time'' = Some (PyFloat (evaluate_time step))"
  "map_of (LogStep_dict step) ''loss'' = Some (PyFloat (loss step))"
  by (simp_all add: LogStep_dict_def)

text \<open>
  Claim C5. For a logger to which the steps \<open>xs\<close> were appended in this order,
  \<open>Logger.list()\<close> returns one dictionary for each step, in the order of the
  appends; the dictionary at position \<open>i\<close> has the ten field names as its keys
  and under each name the value of that field of the step \<open>i\<close>. The call leaves the
  logger as it was, and a second call returns the same.
\<close>

theorem Logger_list_roundtrip:
  "steps (Logger_appends Logger_init xs) = xs \<and>
   fst (Logger_list (Logger_appends Logger_init xs)) = map LogStep_dict xs \<and>
   length (fst (Logger_list (Logger_appends Logger_init xs))) = length xs \<and>
   (\<forall>i<length xs.
      map fst (fst (Logger_list (Logger_appends Logger_init xs)) ! i) =
        [''epoch'', ''eval_acc'', ''sample_time'', ''load_time'', ''forward_time'',
         ''backward_time'', ''cur_epoch_time'', ''acc_epoch_time'', ''evaluate_time'', ''loss''] \<and>
      map_of (fst (Logger_list (Logger_appends Logger_init xs)) ! i) ''epoch'' =
        Some (PyInt (epoch (xs ! i))) \<and>
      map_of (fst (Logger_list (Logger_appends Logger_init xs)) ! i) ''eval_acc'' =
        Some (PyFloat (eval_acc (xs ! i))) \<and>
      map_of (fst (Logger_list (Logger_appends Logger_init xs)) ! i) ''sample_time'' =
        Some (PyFloat (sample_time (xs ! i))) \<and>
      map_of (fst (Logger_list (Logger_appends Logger_init xs)) ! i) ''load_time'' =
        Some (PyFloat (load_time (xs ! i))) \<and>
      map_of (fst (Logger_list (Logger_appends Logger_init xs)) ! i) ''forward_time'' =
        Some (PyFloat (forward_time (xs ! i))) \<and>
      map_of (fst (Logger_list (Logger_appends Logger_init xs)) ! i) ''backward_time'' =
        Some (PyFloat (backward_time (xs ! i))) \<and>
      map_of (fst (Logger_list (Logger_appends Logger_init xs)) ! i) ''cur_epoch_time'' =
        Some (PyFloat (cur_epoch_time (xs ! i))) \<and>
      map_of (fst (Logger_list (Logger_appends Logger_init xs)) ! i) ''acc_epoch_time'' =
        Some (PyFloat (acc_epoch_time (xs ! i))) \<and>
      map_of (fst (Logger_list (Logger_appends Logger_init xs)) ! i) ''evaluate_time'' =
        Some (PyFloat (evaluate_time (xs ! i))) \<and>
      map_of (fst (Logger_list (Logger_appends Logger_init xs)) ! i) ''loss'' =
        Some (PyFloat (loss (xs ! i)))) \<and>
   snd (Logger_list (Logger_appends Logger_init xs)) = Logger_appends Logger_init xs \<and>
   Logger_list (snd (Logger_list (Logger_appends Logger_init xs))) =
     Logger_list (Logger_appends Logger_init xs)"
proof -
  have st: "steps (Logger_appends Logger_init xs) = xs"
    by (simp add: steps_Logger_appends Logger_init_def)
  have ret: "fst (Logger_list (Logger_appends Logger_init xs)) = map LogStep_dict xs"
    by (simp add: Logger_list_steps st)
  have same: "snd (Logger_list (Logger_appends Logger_init xs)) = Logger_appends Logger_init xs"
    by (simp add: Logger_list_steps)
  show ?thesis
    unfolding same ret
    by (simp add: st LogStep_dict_keys LogStep_dict_values)
qed

text \<open>The two steps of the example: the losses come back as 1.2, then 1.0.\<close>

theorem Logger_list_roundtrip_witness:
  "length [step_0, step_1] = 2 \<and>
   map_of (fst (Logger_list (Logger_appends Logger_init [step_0, step_1])) ! 0) ''loss'' =
     Some (PyFloat (12 / 10)) \<and>
   map_of (fst (Logger_list (Logger_appends Logger_init [step_0, step_1])) ! 1) ''loss'' =
     Some (PyFloat 1) \<and>
   map_of (fst (Logger_list (Logger_appends Logger_init [step_0, step_1])) ! 0) ''epoch'' =
     Some (PyInt 0) \<and>
   map_of (fst (Logger_list (Logger_appends Logger_init [step_0, step_1])) ! 1) ''epoch'' =
     Some (PyInt 1)"
proof -
  have len: "(0::nat) < length [step_0, step_1]" "(1::nat) < length [step_0, step_1]"
    by simp_all
  note all = Logger_list_roundtrip [of "[step_0, step_1]"]
  from all len(1) have
    "map_of (fst (Logger_list (Logger_appends Logger_init [step_0, step_1])) ! 0) ''loss'' =
       Some (PyFloat (loss ([step_0, step_1] ! 0)))"
    "map_of (fst (Logger_list (Logger_appends Logger_init [step_0, step_1])) ! 0) ''epoch'' =
       Some (PyInt (epoch ([step_0, step_1] ! 0)))"
    by blast+
  moreover from all len(2) have
    "map_of (fst (Logger_list (Logger_appends Logger_init [step_0, step_1])) ! 1) ''loss'' =
       Some (PyFloat (loss ([step_0, step_1] ! 1)))"
    "map_of (fst (Logger_list (Logger_appends Logger_init [step_0, step_1])) ! 1) ''epoch'' =
       Some (PyInt (epoch ([step_0, step_1] ! 1)))"
    by blast+
  ultimately show ?thesis
    by (simp add: step_0_def step_1_def)
qed

section \<open>Properties of the Timer\<close>

subsection \<open>The invariant\<close>

lemma Timer_inv_init: "Timer_inv clock (Timer_init, k)"
  by (simp add: Timer_inv_def Timer_init_def)

lemma Timer_inv_start: "Timer_inv clock s \<Longrightarrow> Timer_inv clock (snd (Timer_start clock s))"
proof (cases s)
  case (Pair self k)
  assume inv: "Timer_inv clock s"
  show ?thesis
  proof (cases "start_time self")
    case None
    have "k + 2 \<le> Suc (Suc k)" by simp
    then have "\<exists>i. i + 2 \<le> Suc (Suc k) \<and> clock k = clock i" by blast
    with inv Pair None show ?thesis
      by (simp add: Timer_inv_def Timer_start_def time_time_def)
  next
    case (Some t)
    with inv Pair show ?thesis by (simp add: Timer_start_def)
  qed
qed

lemma Timer_inv_stop: "Timer_inv clock s \<Longrightarrow> Timer_inv clock (snd (Timer_stop clock s))"
  by (cases s) (simp add: Timer_inv_def Timer_stop_def time_time_def split: option.splits)

lemma Timer_inv_record: "Timer_inv clock s \<Longrightarrow> Timer_inv clock (snd (Timer_record clock s))"
proof (cases s)
  case (Pair self k)
  assume inv: "Timer_inv clock s"
  show ?thesis
  proof (cases "start_time self")
    case None
    with inv Pair show ?thesis by (simp add: Timer_inv_def Timer_record_def)
  next
    case (Some t)
    with inv Pair obtain i where i: "i + 2 \<le> k" "t = clock i"
      and last: "last_record self = Some (clock (k - 1))" and e: "end_time self = None"
      by (auto simp: Timer_inv_def)
    from i have "i + 2 \<le> Suc (Suc k) \<and> t = clock i" by simp
    then have "\<exists>i. i + 2 \<le> Suc (Suc k) \<and> t = clock i" ..
    with Pair Some last e show ?thesis
      by (simp add: Timer_inv_def Timer_record_def time_time_def)
  qed
qed

lemma Timer_inv_step: "Timer_inv clock s \<Longrightarrow> Timer_inv clock (Timer_step clock s c)"
  by (cases c) (simp_all add: Timer_inv_start Timer_inv_stop Timer_inv_record)

lemma Timer_inv_run: "Timer_inv clock s \<Longrightarrow> Timer_inv clock (Timer_run clock s cs)"
  by (induction cs arbitrary: s) (simp_all add: Timer_inv_step)

lemma Timer_inv_fresh: "Timer_inv clock (Timer_run clock (Timer_init, k0) cs)"
  by (rule Timer_inv_run) (rule Timer_inv_init)

lemma Timer_inv_idle:
  assumes "Timer_inv clock (self, k)" and "start_time self = None"
  shows "last_record self = None"
  using assms by (simp add: Timer_inv_def)

lemma Timer_inv_running:
  assumes "Timer_inv clock (self, k)" and "start_time self \<noteq> None"
  shows "last_record self = Some (clock (k - 1)) \<and> 2 \<le> k"
  using assms by (auto simp: Timer_inv_def)

subsection \<open>What one call does\<close>

lemma Timer_same_last_record:
  "last_record self = Some p \<Longrightarrow> self\<lparr>last_record := Some p\<rparr> = (self::Timer)"
  by (cases self) simp

lemma Timer_start_idle:
  assumes "start_time self = None"
  shows "Timer_start clock (self, k) =
           (Inr (), (self\<lparr>start_time := Some (clock k), last_record := Some (clock (Suc k))\<rparr>,
                     Suc (Suc k)))"
  using assms by (simp add: Timer_start_def time_time_def)

lemma Timer_start_running:
  assumes "start_time self \<noteq> None"
  shows "Timer_start clock (self, k) =
           (Inl (RuntimeError
              ''Timer is already running. Use stop() to stop it before starting again.''),
            (self, k))"
  using assms by (simp add: Timer_start_def)

lemma Timer_start_returns:
  assumes "Timer_start clock (self, k) = (Inr (), s1)"
  shows "start_time self = None"
  using assms by (auto simp: Timer_start_def split: if_splits)

lemma Timer_stop_idle:
  assumes "start_time self = None"
  shows "Timer_stop clock (self, k) =
           (Inl (RuntimeError ''Timer is not running. Use start() to start it.''), (self, k))"
  using assms by (simp add: Timer_stop_def)

lemma Timer_stop_running:
  assumes "start_time self = Some t"
  shows "Timer_stop clock (self, k) = (Inr (clock k - t), (Timer_init, Suc k))"
  using assms by (cases self) (simp add: Timer_stop_def time_time_def Timer_init_def)

lemma Timer_record_unset:
  assumes "last_record self = None"
  shows "Timer_record clock (self, k) =
           (Inl (RuntimeError ''Timer is not running. Use start() to start it.''), (self, k))"
  using assms by (simp add: Timer_record_def)

lemma Timer_record_set:
  assumes "last_record self = Some p"
  shows "Timer_record clock (self, k) =
           (Inr (clock k - p), (self\<lparr>last_record := Some (clock (Suc k))\<rparr>, Suc (Suc k)))"
  using assms by (simp add: Timer_record_def time_time_def)

subsection \<open>Consecutive calls of record\<close>

text \<open>
  With a last-record timestamp set, \<open>n\<close> calls all return: call \<open>i\<close> takes the
  readings \<open>k + 2 * i\<close> and \<open>k + 2 * i + 1\<close>, returns the first less the timestamp
  it found and stores the second.
\<close>

lemma Timer_record_n_set:
  assumes "last_record self = Some p"
  shows "Timer_record_n clock n (self, k) =
           (Inr (map (\<lambda>i. clock (k + 2 * i) - (if i = 0 then p else clock (k + 2 * i - 1))) [0..<n]),
            (self\<lparr>last_record := Some (if n = 0 then p else clock (k + 2 * n - 1))\<rparr>, k + 2 * n))"
  using assms
proof (induction n arbitrary: self k p)
  case 0
  then show ?case by (simp add: Timer_same_last_record)
next
  case (Suc n)
  let ?self1 = "self\<lparr>last_record := Some (clock (Suc k))\<rparr>"
  have one: "Timer_record clock (self, k) = (Inr (clock k - p), (?self1, Suc (Suc k)))"
    using Suc.prems by (rule Timer_record_set)
  have "last_record ?self1 = Some (clock (Suc k))" by simp
  note rest = Suc.IH [OF this, of "Suc (Suc k)"]
  have idx: "[0..<Suc n] = 0 # map Suc [0..<n]"
    by (simp add: upt_conv_Cons map_Suc_upt del: upt_Suc)
  have "Timer_record_n clock (Suc n) (self, k) =
          (Inr ((clock k - p) #
                map (\<lambda>i. clock (Suc (Suc k) + 2 * i) -
                         (if i = 0 then clock (Suc k) else clock (Suc (Suc k) + 2 * i - 1)))
                  [0..<n]),
           (?self1\<lparr>last_record :=
               Some (if n = 0 then clock (Suc k) else clock (Suc (Suc k) + 2 * n - 1))\<rparr>,
            Suc (Suc k) + 2 * n))"
    by (simp only: Timer_record_n.simps one rest prod.case sum.case)
  also have "\<dots> =
          (Inr (map (\<lambda>i. clock (k + 2 * i) - (if i = 0 then p else clock (k + 2 * i - 1)))
                  [0..<Suc n]),
           (self\<lparr>last_record := Some (clock (k + 2 * Suc n - 1))\<rparr>, k + 2 * Suc n))"
    unfolding idx by (cases n) (simp_all add: comp_def)
  finally show ?case by simp
qed

subsection \<open>Misuse\<close>

text \<open>
  Claim C2. \<open>start()\<close> on a running timer (one whose start timestamp is set) and
  \<open>stop()\<close> on an idle timer raise the \<open>RuntimeError\<close> of misuse and leave the
  object and the clock as they were; so does \<open>record()\<close> on an idle timer, for
  every timer that has been made by the constructor and used through its methods
  only (after any history of calls), the case in which an idle timer has no
  last-record timestamp.
\<close>

theorem Timer_misuse_raises_unchanged:
  "(start_time self \<noteq> None \<longrightarrow>
      Timer_start clock (self, k) =
        (Inl (RuntimeError
           ''Timer is already running. Use stop() to stop it before starting again.''),
         (self, k))) \<and>
   (start_time self = None \<longrightarrow>
      Timer_stop clock (self, k) =
        (Inl (RuntimeError ''Timer is not running. Use start() to start it.''), (self, k))) \<and>
   (start_time (fst (Timer_run clock (Timer_init, k0) calls)) = None \<longrightarrow>
      Timer_record clock (Timer_run clock (Timer_init, k0) calls) =
        (Inl (RuntimeError ''Timer is not running. Use start() to start it.''),
         Timer_run clock (Timer_init, k0) calls))"
proof (intro conjI impI)
  assume "start_time self \<noteq> None"
  then show "Timer_start clock (self, k) =
        (Inl (RuntimeError
           ''Timer is already running. Use stop() to stop it before starting again.''),
         (self, k))"
    by (rule Timer_start_running)
next
  assume "start_time self = None"
  then show "Timer_stop clock (self, k) =
        (Inl (RuntimeError ''Timer is not running. Use start() to start it.''), (self, k))"
    by (rule Timer_stop_idle)
next
  obtain self1 k1 where s: "Timer_run clock (Timer_init, k0) calls = (self1, k1)"
    by (cases "Timer_run clock (Timer_init, k0) calls")
  assume "start_time (fst (Timer_run clock (Timer_init, k0) calls)) = None"
  with s have idle: "start_time self1 = None" by simp
  have "Timer_inv clock (self1, k1)"
    using Timer_inv_fresh [of clock k0 calls] s by simp
  then have "last_record self1 = None"
    using idle by (rule Timer_inv_idle)
  then show "Timer_record clock (Timer_run clock (Timer_init, k0) calls) =
        (Inl (RuntimeError ''Timer is not running. Use start() to start it.''),
         Timer_run clock (Timer_init, k0) calls)"
    unfolding s by (rule Timer_record_unset)
qed

text \<open>
  The three cases at work: a timer just started, started again; a fresh timer,
  stopped; a timer started and stopped, asked for a record.
\<close>

theorem Timer_misuse_raises_unchanged_witness:
  "Timer_start real (\<lparr>start_time = Some 0, last_record = Some 1, end_time = None\<rparr>, 2) =
     (Inl (RuntimeError
        ''Timer is already running. Use stop() to stop it before starting again.''),
      (\<lparr>start_time = Some 0, last_record = Some 1, end_time = None\<rparr>, 2)) \<and>
   Timer_stop real (Timer_init, 0) =
     (Inl (RuntimeError ''Timer is not running. Use start() to start it.''), (Timer_init, 0)) \<and>
   Timer_run real (Timer_init, 0) [Start, Stop] = (Timer_init, 3) \<and>
   Timer_record real (Timer_run real (Timer_init, 0) [Start, Stop]) =
     (Inl (RuntimeError ''Timer is not running. Use start() to start it.''),
      Timer_run real (Timer_init, 0) [Start, Stop])"
proof -
  have run: "Timer_run real (Timer_init, 0) [Start, Stop] = (Timer_init, 3)"
    by (simp add: Timer_start_def Timer_stop_def time_time_def Timer_init_def numeral_3_eq_3)
  have a: "start_time \<lparr>start_time = Some 0, last_record = Some 1, end_time = None\<rparr> \<noteq> None"
    by simp
  have b: "start_time Timer_init = None"
    by (simp add: Timer_init_def)
  have c: "start_time (fst (Timer_run real (Timer_init, 0) [Start, Stop])) = None"
    by (simp only: run fst_conv b)
  from Timer_misuse_raises_unchanged
         [of "\<lparr>start_time = Some 0, last_record = Some 1, end_time = None\<rparr>" real 2 0 "[]"] a
  have 1: "Timer_start real (\<lparr>start_time = Some 0, last_record = Some 1, end_time = None\<rparr>, 2) =
     (Inl (RuntimeError
        ''Timer is already running. Use stop() to stop it before starting again.''),
      (\<lparr>start_time = Some 0, last_record = Some 1, end_time = None\<rparr>, 2))"
    by blast
  from Timer_misuse_raises_unchanged [of Timer_init real 0 0 "[Start, Stop]"] b c
  have 2: "Timer_stop real (Timer_init, 0) =
     (Inl (RuntimeError ''Timer is not running. Use start() to start it.''), (Timer_init, 0))"
    and 3: "Timer_record real (Timer_run real (Timer_init, 0) [Start, Stop]) =
     (Inl (RuntimeError ''Timer is not running. Use start() to start it.''),
      Timer_run real (Timer_init, 0) [Start, Stop])"
    by blast+
  from 1 2 run 3 show ?thesis by blast
qed

subsection \<open>Start, then stop\<close>

text \<open>
  Claim C3. Let \<open>start()\<close> return on a timer, taking the reading \<open>clock k0\<close> as
  the start timestamp, and let the clock never go back. After any number \<open>n\<close> of
  \<open>record()\<close> calls, which all return, \<open>stop()\<close> returns the reading it takes
  less the start timestamp, a duration that is not negative; it leaves all three
  timestamps \<open>None\<close> (the object is as the constructor makes it), and a
  \<open>start()\<close> right after it returns.
\<close>

theorem Timer_stop_after_start:
  assumes "mono clock" and "Timer_start clock (self0, k0) = (Inr (), s1)"
  shows "start_time (fst s1) = Some (clock k0) \<and>
         (\<exists>ds s2 s4.
            Timer_record_n clock n s1 = (Inr ds, s2) \<and>
            Timer_stop clock s2 = (Inr (clock (snd s2) - clock k0), (Timer_init, Suc (snd s2))) \<and>
            0 \<le> clock (snd s2) - clock k0 \<and>
            start_time Timer_init = None \<and> last_record Timer_init = None \<and>
            end_time Timer_init = None \<and>
            Timer_start clock (Timer_init, Suc (snd s2)) = (Inr (), s4))"
proof -
  let ?self1 = "self0\<lparr>start_time := Some (clock k0), last_record := Some (clock (Suc k0))\<rparr>"
  from assms(2) have idle: "start_time self0 = None"
    by (rule Timer_start_returns)
  from Timer_start_idle [OF idle, of clock k0] assms(2)
  have s1: "s1 = (?self1, Suc (Suc k0))" by simp
  have "last_record ?self1 = Some (clock (Suc k0))" by simp
  from Timer_record_n_set [OF this, of clock n "Suc (Suc k0)"]
  obtain ds q where
    recs: "Timer_record_n clock n s1 = (Inr ds, (?self1\<lparr>last_record := Some q\<rparr>, Suc (Suc k0) + 2 * n))"
    unfolding s1 by blast
  let ?s2 = "(?self1\<lparr>last_record := Some q\<rparr>, Suc (Suc k0) + 2 * n)"
  have "start_time (?self1\<lparr>last_record := Some q\<rparr>) = Some (clock k0)" by simp
  from Timer_stop_running [OF this, of clock "Suc (Suc k0) + 2 * n"]
  have stop: "Timer_stop clock ?s2 = (Inr (clock (snd ?s2) - clock k0), (Timer_init, Suc (snd ?s2)))"
    by simp
  have "k0 \<le> snd ?s2" by simp
  with assms(1) have "clock k0 \<le> clock (snd ?s2)" by (rule monoD)
  then have pos: "0 \<le> clock (snd ?s2) - clock k0" by simp
  have fresh: "start_time Timer_init = None" "last_record Timer_init = None"
    "end_time Timer_init = None"
    by (simp_all add: Timer_init_def)
  from Timer_start_idle [OF fresh(1), of clock "Suc (snd ?s2)"]
  have "\<exists>s4. Timer_start clock (Timer_init, Suc (snd ?s2)) = (Inr (), s4)" by blast
  with recs stop pos fresh s1 show ?thesis by auto
qed

text \<open>
  On the clock whose reading number \<open>k\<close> is \<open>k\<close>: start at reading 0, one
  record, stop at reading 4.
\<close>

theorem Timer_stop_after_start_witness:
  "mono (real :: nat \<Rightarrow> real) \<and>
   Timer_start real (Timer_init, 0) =
     (Inr (), (\<lparr>start_time = Some 0, last_record = Some 1, end_time = None\<rparr>, 2)) \<and>
   (\<exists>ds s2 s4.
      Timer_record_n real 1
          (\<lparr>start_time = Some 0, last_record = Some 1, end_time = None\<rparr>, 2) = (Inr ds, s2) \<and>
      Timer_stop real s2 = (Inr (real (snd s2) - real 0), (Timer_init, Suc (snd s2))) \<and>
      0 \<le> real (snd s2) - real 0 \<and>
      Timer_start real (Timer_init, Suc (snd s2)) = (Inr (), s4))"
proof -
  have m: "mono (real :: nat \<Rightarrow> real)"
    by (simp add: mono_def)
  have st: "Timer_start real (Timer_init, 0) =
     (Inr (), (\<lparr>start_time = Some 0, last_record = Some 1, end_time = None\<rparr>, 2))"
    by (simp add: Timer_start_def time_time_def Timer_init_def numeral_2_eq_2)
  from Timer_stop_after_start [OF m st, of 1] m st show ?thesis by blast
qed

subsection \<open>Records while running\<close>

text \<open>
  Claim C4. Take a timer made by the constructor, after any history of calls, that
  is running (its start timestamp is set), at reading number \<open>k\<close> of a clock that
  never goes back. Its last-record timestamp is the latest reading taken,
  \<open>clock (k - 1)\<close>, stored by the last \<open>start()\<close> or \<open>record()\<close>. Then \<open>n\<close>
  consecutive calls of \<open>record()\<close> all return: call \<open>i\<close> returns the reading it
  takes on entry, \<open>clock (k + 2 * i)\<close>, less the timestamp the call before it
  stored, \<open>clock (k + 2 * i - 1)\<close>, which is not negative; it stores the reading
  it takes next as the last-record timestamp; the start and end timestamps stay as
  they were, so the timer is still running.
\<close>

theorem Timer_record_deltas:
  assumes "mono clock"
    and "Timer_run clock (Timer_init, k0) calls = (self, k)"
    and "start_time self \<noteq> None"
  shows "last_record self = Some (clock (k - 1)) \<and>
         Timer_record_n clock n (self, k) =
           (Inr (map (\<lambda>i. clock (k + 2 * i) - clock (k + 2 * i - 1)) [0..<n]),
            (self\<lparr>last_record := Some (clock (k + 2 * n - 1))\<rparr>, k + 2 * n)) \<and>
         (\<forall>i<n. 0 \<le> clock (k + 2 * i) - clock (k + 2 * i - 1)) \<and>
         start_time (self\<lparr>last_record := Some (clock (k + 2 * n - 1))\<rparr>) = start_time self \<and>
         end_time (self\<lparr>last_record := Some (clock (k + 2 * n - 1))\<rparr>) = end_time self"
proof -
  have "Timer_inv clock (self, k)"
    using Timer_inv_fresh [of clock k0 calls] assms(2) by simp
  then have lastr: "last_record self = Some (clock (k - 1))"
    using assms(3) by (simp add: Timer_inv_running)
  have deltas: "map (\<lambda>i. clock (k + 2 * i) - (if i = 0 then clock (k - 1) else clock (k + 2 * i - 1)))
                  [0..<n] =
                map (\<lambda>i. clock (k + 2 * i) - clock (k + 2 * i - 1)) [0..<n]"
    by (rule map_cong) auto
  have final: "(if n = 0 then clock (k - 1) else clock (k + 2 * n - 1)) = clock (k + 2 * n - 1)"
    by simp
  have recs: "Timer_record_n clock n (self, k) =
           (Inr (map (\<lambda>i. clock (k + 2 * i) - clock (k + 2 * i - 1)) [0..<n]),
            (self\<lparr>last_record := Some (clock (k + 2 * n - 1))\<rparr>, k + 2 * n))"
    using Timer_record_n_set [OF lastr, of clock n k] unfolding deltas final .
  have pos: "0 \<le> clock (k + 2 * i) - clock (k + 2 * i - 1)" for i
  proof -
    have "k + 2 * i - 1 \<le> k + 2 * i" by simp
    with assms(1) have "clock (k + 2 * i - 1) \<le> clock (k + 2 * i)" by (rule monoD)
    then show ?thesis by simp
  qed
  from lastr recs pos show ?thesis by simp
qed

text \<open>
  On the clock whose reading number \<open>k\<close> is \<open>k\<close>: a timer started at reading 0
  (readings 0 and 1), then two records, which take the readings 2, 3 and 4, 5.
\<close>

theorem Timer_record_deltas_witness:
  "mono (real :: nat \<Rightarrow> real) \<and>
   Timer_run real (Timer_init, 0) [Start] =
     (\<lparr>start_time = Some 0, last_record = Some 1, end_time = None\<rparr>, 2) \<and>
   Timer_record_n real 2 (\<lparr>start_time = Some 0, last_record = Some 1, end_time = None\<rparr>, 2) =
     (Inr [1, 1], (\<lparr>start_time = Some 0, last_record = Some 5, end_time = None\<rparr>, 6))"
proof -
  have m: "mono (real :: nat \<Rightarrow> real)"
    by (simp add: mono_def)
  have run: "Timer_run real (Timer_init, 0) [Start] =
     (\<lparr>start_time = Some 0, last_record = Some 1, end_time = None\<rparr>, 2)"
    by (simp add: Timer_start_def time_time_def Timer_init_def numeral_2_eq_2)
  have running: "start_time \<lparr>start_time = Some 0, last_record = Some 1, end_time = None\<rparr> \<noteq> None"
    by simp
  have idx: "[0..<2] = [0, Suc 0]"
    by (simp add: numeral_2_eq_2)
  from Timer_record_deltas [OF m run running, of 2] m run show ?thesis
    by (simp add: idx)
qed

section \<open>Properties of Config\<close>

lemma gconfig_set_global_configs:
  "gconfig (set_global_configs g cs) = (if cs = [] then gconfig g else Some (last cs))"
  by (induction cs arbitrary: g) (simp_all add: Config_set_global_config_def)

text \<open>
  Claim C6. After any sequence of \<open>set_global_config\<close> calls on a freshly loaded
  module, \<open>get_global_config\<close> returns \<open>None\<close> if the sequence is empty and
  the configuration of the last call otherwise; reading changes nothing, so this
  also holds of every later read.
\<close>

theorem get_global_config_last_set:
  "fst (Config_get_global_config (set_global_configs globals_init cs)) =
     (if cs = [] then None else Some (last cs)) \<and>
   fst (Config_get_global_config globals_init) = None \<and>
   fst (Config_get_global_config (Config_set_global_config g config)) = Some config \<and>
   snd (Config_get_global_config g) = g"
  by (simp add: Config_get_global_config_def gconfig_set_global_configs globals_init_def
      Config_set_global_config_def)

text \<open>Two registrations: the second is the one returned.\<close>

theorem get_global_config_last_set_witness:
  "fst (Config_get_global_config
          (set_global_configs globals_init
             [Config_init default_args, (Config_init default_args)\<lparr>batch_size := 512\<rparr>])) =
     Some ((Config_init default_args)\<lparr>batch_size := 512\<rparr>)"
  using get_global_config_last_set
          [of "[Config_init default_args, (Config_init default_args)\<lparr>batch_size := 512\<rparr>]"]
  by simp

text \<open>
  Claim C10. The constructor leaves \<open>world_size\<close> unassigned whatever the
  arguments, so that reading it raises \<open>AttributeError\<close>; each of the other
  fifteen declared fields has the value of the argument of its name (and so has
  \<open>num_layers\<close>).
\<close>

theorem Config_init_world_size_unassigned:
  "world_size (Config_init args) = None \<and>
   Config_get_world_size (Config_init args) = Inl (AttributeError ''world_size'') \<and>
   sample_mode (Config_init args) = Namespace.sample_mode args \<and>
   batch_size (Config_init args) = Namespace.batch_size args \<and>
   fanouts (Config_init args) = Namespace.fanouts args \<and>
   num_epoch (Config_init args) = Namespace.num_epoch args \<and>
   hid_size (Config_init args) = Namespace.hid_size args \<and>
   num_head (Config_init args) = Namespace.num_head args \<and>
   lr (Config_init args) = Namespace.lr args \<and>
   weight_decay (Config_init args) = Namespace.weight_decay args \<and>
   dropout (Config_init args) = Namespace.dropout args \<and>
   num_partition (Config_init args) = Namespace.num_partition args \<and>
   graph_name (Config_init args) = Namespace.graph_name args \<and>
   data_dir (Config_init args) = Namespace.data_dir args \<and>
   model (Config_init args) = Namespace.model args \<and>
   log_file (Config_init args) = Namespace.log_file args \<and>
   eval (Config_init args) = Namespace.eval args \<and>
   num_layers (Config_init args) = Namespace.num_layers args"
  by (simp add: Config_init_def Config_get_world_size_def)

text \<open>With the parser's defaults, where the argument \<open>world_size\<close> is 1.\<close>

theorem Config_init_world_size_unassigned_witness:
  "Namespace.world_size default_args = 1 \<and>
   Config_get_world_size (Config_init default_args) = Inl (AttributeError ''world_size'') \<and>
   batch_size (Config_init default_args) = 1024"
  using Config_init_world_size_unassigned [of default_args]
  by (simp add: default_args_def)

section \<open>Properties of the Dataset\<close>

lemma Dataset_to_returns:
  assumes "tensor_to (label self) device = Inr l"
    and "tensor_to (train_mask self) device = Inr tr"
    and "tensor_to (val_mask self) device = Inr va"
    and "tensor_to (test_mask self) device = Inr te"
  shows "Dataset_to tensor_to self device =
           (Inr (), self\<lparr>label := l, train_mask := tr, val_mask := va, test_mask := te\<rparr>)"
  using assms by (simp add: Dataset_to_def)

lemma Dataset_to_frame:
  "graph (snd (Dataset_to tensor_to self device)) = graph self \<and>
   feat (snd (Dataset_to tensor_to self device)) = feat self \<and>
   num_classes (snd (Dataset_to tensor_to self device)) = num_classes self \<and>
   in_feats (snd (Dataset_to tensor_to self device)) = in_feats self"
  by (simp add: Dataset_to_def Let_def split: sum.splits)

text \<open>
  Claim C7. Whatever the data set and the device, \<open>Dataset.to\<close> leaves the graph
  handle, the feature tensor, the class count and the feature width as they were
  (also when a move raises). When the tensor library moves the label and the three
  index sets, the method returns with exactly these four fields replaced by the
  moved tensors.
\<close>

theorem Dataset_to_moves_label_and_masks:
  "graph (snd (Dataset_to tensor_to self device)) = graph self \<and>
   feat (snd (Dataset_to tensor_to self device)) = feat self \<and>
   num_classes (snd (Dataset_to tensor_to self device)) = num_classes self \<and>
   in_feats (snd (Dataset_to tensor_to self device)) = in_feats self \<and>
   (tensor_to (label self) device = Inr l \<and>
    tensor_to (train_mask self) device = Inr tr \<and>
    tensor_to (val_mask self) device = Inr va \<and>
    tensor_to (test_mask self) device = Inr te \<longrightarrow>
    Dataset_to tensor_to self device =
      (Inr (),
       \<lparr>graph = graph self, feat = feat self, label = l, train_mask = tr, val_mask = va,
        test_mask = te, num_classes = num_classes self, in_feats = in_feats self\<rparr>))"
proof -
  have "self\<lparr>label := l, train_mask := tr, val_mask := va, test_mask := te\<rparr> =
        \<lparr>graph = graph self, feat = feat self, label = l, train_mask = tr, val_mask = va,
         test_mask = te, num_classes = num_classes self, in_feats = in_feats self\<rparr>"
    by (cases self) simp
  then show ?thesis
    using Dataset_to_frame [of tensor_to self device]
    by (auto simp: Dataset_to_returns)
qed

text \<open>
  A tensor library whose tensors are lists of integers and whose move to a device,
  a number, puts the number of the device in front of the tensor: after the move
  to device 7 the label and the three index sets carry the 7, the feature tensor
  and the rest do not.
\<close>

theorem Dataset_to_moves_label_and_masks_witness:
  "Dataset_to (\<lambda>t d. Inr (d # t)) small_data 7 =
     (Inr (),
      \<lparr>graph = \<lparr>num_nodes = 10, num_edges = 20\<rparr>, feat = [3, 4], label = [7, 0, 1],
       train_mask = [7, 0], val_mask = [7, 1], test_mask = [7, 2], num_classes = 2,
       in_feats = 8\<rparr>) \<and>
   label small_data = [0, 1] \<and> train_mask small_data = [0] \<and>
   val_mask small_data = [1] \<and> test_mask small_data = [2] \<and> feat small_data = [3, 4]"
proof -
  have before:
    "label small_data = [0, 1]" "train_mask small_data = [0]" "val_mask small_data = [1]"
    "test_mask small_data = [2]" "feat small_data = [3, 4]"
    by (simp_all add: small_data_def)
  have moves:
    "(\<lambda>t d. Inr (d # t)) (label small_data) 7 = (Inr [7, 0, 1] :: error + int list) \<and>
     (\<lambda>t d. Inr (d # t)) (train_mask small_data) 7 = (Inr [7, 0] :: error + int list) \<and>
     (\<lambda>t d. Inr (d # t)) (val_mask small_data) 7 = (Inr [7, 1] :: error + int list) \<and>
     (\<lambda>t d. Inr (d # t)) (test_mask small_data) 7 = (Inr [7, 2] :: error + int list)"
    by (simp add: before)
  from Dataset_to_moves_label_and_masks
         [of "\<lambda>t d. Inr (d # t)" small_data 7 "[7, 0, 1]" "[7, 0]" "[7, 1]" "[7, 2]"] moves
  have "Dataset_to (\<lambda>t d. Inr (d # t)) small_data 7 =
      (Inr (),
       \<lparr>graph = graph small_data, feat = feat small_data, label = [7, 0, 1],
        train_mask = [7, 0], val_mask = [7, 1], test_mask = [7, 2],
        num_classes = num_classes small_data, in_feats = in_feats small_data\<rparr>)"
    by blast
  then have "Dataset_to (\<lambda>t d. Inr (d # t)) small_data 7 =
     (Inr (),
      \<lparr>graph = \<lparr>num_nodes = 10, num_edges = 20\<rparr>, feat = [3, 4], label = [7, 0, 1],
       train_mask = [7, 0], val_mask = [7, 1], test_mask = [7, 2], num_classes = 2,
       in_feats = 8\<rparr>)"
    by (simp add: small_data_def)
  with before show ?thesis by blast
qed

section \<open>Properties of the probes and the builders\<close>

subsection \<open>The GPU probe\<close>

lemma str_split_loop_not_Nil: "str_split_loop sep piece s \<noteq> []"
  by (induction s arbitrary: piece) simp_all

lemma str_split_not_Nil: "str_split s sep \<noteq> []"
  by (simp add: str_split_def str_split_loop_not_Nil)

lemma get_cuda_gpu_model_absent:
  assumes "nvidia_smi h = NotInstalled"
  shows "get_cuda_gpu_model text_decode h =
           Inr ([], [''nvidia-smi not found. Make sure NVIDIA drivers are installed and accessible.''])"
  using assms by (simp add: get_cuda_gpu_model_def subprocess_run_def)

lemma get_cuda_gpu_model_not_executable:
  assumes "nvidia_smi h = NotExecutable"
  shows "get_cuda_gpu_model text_decode h = Inl PermissionError"
  using assms by (simp add: get_cuda_gpu_model_def subprocess_run_def)

lemma get_cuda_gpu_model_failed:
  assumes "nvidia_smi h = Runs r"
    and "text_decode (stdout r) = Inr out" and "text_decode (stderr r) = Inr err"
    and "returncode r \<noteq> 0"
  shows "get_cuda_gpu_model text_decode h =
           Inr ([], [''Error executing nvidia-smi: '' @ translate_newlines err])"
  using assms by (simp add: get_cuda_gpu_model_def subprocess_run_def)

lemma get_cuda_gpu_model_listed:
  assumes "nvidia_smi h = Runs r"
    and "text_decode (stdout r) = Inr out" and "text_decode (stderr r) = Inr err"
    and "returncode r = 0"
  shows "get_cuda_gpu_model text_decode h =
           Inr (str_split (str_strip (translate_newlines out)) (CHR 0x0A), [])"
  using assms by (simp add: get_cuda_gpu_model_def subprocess_run_def)

lemma get_cuda_gpu_model_decoded_returns:
  assumes "nvidia_smi h = Runs r"
    and "text_decode (stdout r) = Inr out" and "text_decode (stderr r) = Inr err"
  shows "\<exists>gpu_model printed. get_cuda_gpu_model text_decode h = Inr (gpu_model, printed)"
proof (cases "returncode r = 0")
  case True
  with assms show ?thesis by (simp add: get_cuda_gpu_model_listed)
next
  case False
  with assms show ?thesis by (simp add: get_cuda_gpu_model_failed)
qed

text \<open>
  Claim C9, as far as the code goes. When the tool is not installed the GPU probe
  returns the empty list and prints one line. When the tool runs and what it wrote
  decodes, the probe returns, whatever the exit status, and with an exit status
  other than zero it returns the empty list and prints one line.
\<close>

theorem get_cuda_gpu_model_degrades:
  "(nvidia_smi h = NotInstalled \<longrightarrow>
      get_cuda_gpu_model text_decode h =
        Inr ([], [''nvidia-smi not found. Make sure NVIDIA drivers are installed and accessible.''])) \<and>
   (\<forall>r out err.
      nvidia_smi h = Runs r \<and> text_decode (stdout r) = Inr out \<and> text_decode (stderr r) = Inr err \<longrightarrow>
      (\<exists>gpu_model printed. get_cuda_gpu_model text_decode h = Inr (gpu_model, printed)) \<and>
      (returncode r \<noteq> 0 \<longrightarrow>
         get_cuda_gpu_model text_decode h =
           Inr ([], [''Error executing nvidia-smi: '' @ translate_newlines err])))"
proof (intro conjI allI impI)
  assume "nvidia_smi h = NotInstalled"
  then show "get_cuda_gpu_model text_decode h =
        Inr ([], [''nvidia-smi not found. Make sure NVIDIA drivers are installed and accessible.''])"
    by (rule get_cuda_gpu_model_absent)
next
  fix r out err
  assume "nvidia_smi h = Runs r \<and> text_decode (stdout r) = Inr out \<and> text_decode (stderr r) = Inr err"
  then show "\<exists>gpu_model printed. get_cuda_gpu_model text_decode h = Inr (gpu_model, printed)"
    by (blast intro: get_cuda_gpu_model_decoded_returns)
next
  fix r out err
  assume "nvidia_smi h = Runs r \<and> text_decode (stdout r) = Inr out \<and> text_decode (stderr r) = Inr err"
    and "returncode r \<noteq> 0"
  then show "get_cuda_gpu_model text_decode h =
           Inr ([], [''Error executing nvidia-smi: '' @ translate_newlines err])"
    by (simp add: get_cuda_gpu_model_failed)
qed

text \<open>
  With the ASCII codec: a host without the tool, a host where the tool exits with
  status 9 and a message that ends in carriage return and line feed, and the host
  of the example, where the tool exits with status zero.
\<close>

theorem get_cuda_gpu_model_degrades_witness:
  "get_cuda_gpu_model ascii_decode \<lparr>nvidia_smi = NotInstalled, lscpu = None\<rparr> =
     Inr ([], [''nvidia-smi not found. Make sure NVIDIA drivers are installed and accessible.'']) \<and>
   get_cuda_gpu_model ascii_decode
       \<lparr>nvidia_smi = Runs \<lparr>returncode = 9, stdout = '''', stderr = [CHR ''n'', CHR ''o'', CHR 0x0D, CHR 0x0A]\<rparr>,
        lscpu = None\<rparr> =
     Inr ([], [''Error executing nvidia-smi: no\<newline>'']) \<and>
   (\<exists>gpu_model printed. get_cuda_gpu_model ascii_decode good_host = Inr (gpu_model, printed))"
proof -
  have a: "nvidia_smi \<lparr>nvidia_smi = NotInstalled, lscpu = None\<rparr> = NotInstalled"
    by simp
  let ?bad = "\<lparr>returncode = 9, stdout = '''', stderr = [CHR ''n'', CHR ''o'', CHR 0x0D, CHR 0x0A]\<rparr>"
  have b: "nvidia_smi \<lparr>nvidia_smi = Runs ?bad, lscpu = None\<rparr> = Runs ?bad \<and>
      ascii_decode (stdout ?bad) = Inr '''' \<and>
      ascii_decode (stderr ?bad) = Inr [CHR ''n'', CHR ''o'', CHR 0x0D, CHR 0x0A]"
    by (simp add: ascii_decode_def)
  have b': "returncode ?bad \<noteq> 0"
    by simp
  have nl: "translate_newlines [CHR ''n'', CHR ''o'', CHR 0x0D, CHR 0x0A] = ''no\<newline>''"
    by (simp add: translate_newlines_def replace_cr_def)
  let ?good = "\<lparr>returncode = 0, stdout = ''Tesla V100\<newline>Tesla T4\<newline>'', stderr = ''''\<rparr>"
  have c: "nvidia_smi good_host = Runs ?good \<and>
      ascii_decode (stdout ?good) = Inr ''Tesla V100\<newline>Tesla T4\<newline>'' \<and>
      ascii_decode (stderr ?good) = Inr ''''"
    by (simp add: good_host_def ascii_decode_def)
  from get_cuda_gpu_model_degrades [of "\<lparr>nvidia_smi = NotInstalled, lscpu = None\<rparr>" ascii_decode] a
  have 1: "get_cuda_gpu_model ascii_decode \<lparr>nvidia_smi = NotInstalled, lscpu = None\<rparr> =
     Inr ([], [''nvidia-smi not found. Make sure NVIDIA drivers are installed and accessible.''])"
    by blast
  from get_cuda_gpu_model_degrades [of "\<lparr>nvidia_smi = Runs ?bad, lscpu = None\<rparr>" ascii_decode] b b'
  have "get_cuda_gpu_model ascii_decode \<lparr>nvidia_smi = Runs ?bad, lscpu = None\<rparr> =
     Inr ([], [''Error executing nvidia-smi: '' @
               translate_newlines [CHR ''n'', CHR ''o'', CHR 0x0D, CHR 0x0A]])"
    by blast
  then have 2: "get_cuda_gpu_model ascii_decode \<lparr>nvidia_smi = Runs ?bad, lscpu = None\<rparr> =
     Inr ([], [''Error executing nvidia-smi: no\<newline>''])"
    by (simp add: nl)
  from get_cuda_gpu_model_degrades [of good_host ascii_decode] c
  have 3: "\<exists>gpu_model printed. get_cuda_gpu_model ascii_decode good_host = Inr (gpu_model, printed)"
    by blast
  from 1 2 3 show ?thesis by blast
qed

text \<open>
  Claim C9 as it is worded fails on three hosts, here with the ASCII codec. Where
  the tool runs, exits with status zero and writes nothing, no accelerator being
  there to list, the probe returns a list of one empty name, not the empty list.
  Where the tool is installed but may not be executed, the probe raises
  \<open>PermissionError\<close>. Where the tool exits with status 9 and writes the byte 255,
  the probe raises \<open>UnicodeDecodeError\<close> and returns no list.
\<close>

theorem get_cuda_gpu_model_claim_fails:
  "get_cuda_gpu_model ascii_decode
       \<lparr>nvidia_smi = Runs \<lparr>returncode = 0, stdout = '''', stderr = ''''\<rparr>, lscpu = None\<rparr> =
     Inr ([''''], []) \<and>
   [''''] \<noteq> ([] :: string list) \<and>
   get_cuda_gpu_model ascii_decode \<lparr>nvidia_smi = NotExecutable, lscpu = None\<rparr> =
     Inl PermissionError \<and>
   get_cuda_gpu_model ascii_decode
       \<lparr>nvidia_smi = Runs \<lparr>returncode = 9, stdout = '''', stderr = [CHR 0xFF]\<rparr>, lscpu = None\<rparr> =
     Inl UnicodeDecodeError"
  by (simp add: get_cuda_gpu_model_def subprocess_run_def ascii_decode_def translate_newlines_def
      replace_cr_def str_split_def str_strip_def strip_with_def)

subsection \<open>The CPU probe\<close>

lemma get_cpu_model_absent:
  assumes "lscpu h = None"
  shows "get_cpu_model decode h = Inl (CalledProcessError 127 ''lscpu'')"
  using assms by (simp add: get_cpu_model_def subprocess_check_output_shell_def)

lemma get_cpu_model_failed:
  assumes "lscpu h = Some r" and "returncode r \<noteq> 0"
  shows "get_cpu_model decode h = Inl (CalledProcessError (returncode r) ''lscpu'')"
  using assms by (simp add: get_cpu_model_def subprocess_check_output_shell_def)

lemma builders_raise_with_cpu_probe:
  assumes "get_cpu_model decode h = Inl e"
  shows "get_full_meta decode h config data = Inl e"
    and "get_minibatch_meta decode h config data = Inl e"
    and "get_quiver_meta decode text_decode h config data = Inl e"
  using assms by (simp_all add: get_full_meta_def get_minibatch_meta_def get_quiver_meta_def)

text \<open>
  Once the CPU probe has returned, the full-graph builder returns, and the builder
  for the sampling library returns when the GPU probe does.
\<close>

lemma get_full_meta_returns:
  assumes "get_cpu_model decode h = Inr cpu_model"
  shows "\<exists>ret. get_full_meta decode h config data = Inr ret"
  using assms by (simp add: get_full_meta_def Let_def)

lemma get_quiver_meta_returns:
  assumes "get_cpu_model decode h = Inr cpu_model"
    and "get_cuda_gpu_model text_decode h = Inr (gpu_model, printed)"
  shows "\<exists>ret. get_quiver_meta decode text_decode h config data = Inr (ret, printed)"
  using assms by (simp add: get_quiver_meta_def Let_def)

text \<open>
  Claim C1 at the inputs where it fails. On a host without \<open>lscpu\<close> the CPU probe
  raises the \<open>CalledProcessError\<close> of the shell's exit status 127, and on a host
  where \<open>lscpu\<close> exits with status 1 that of status 1; each of the three builders
  that call the probe raises the same exception and returns no dictionary.
\<close>

theorem builders_abort_on_cpu_probe_failure:
  "get_cpu_model decode \<lparr>nvidia_smi = g, lscpu = None\<rparr> = Inl (CalledProcessError 127 ''lscpu'') \<and>
   get_full_meta decode \<lparr>nvidia_smi = g, lscpu = None\<rparr> config data =
     Inl (CalledProcessError 127 ''lscpu'') \<and>
   get_minibatch_meta decode \<lparr>nvidia_smi = g, lscpu = None\<rparr> config data =
     Inl (CalledProcessError 127 ''lscpu'') \<and>
   get_quiver_meta decode text_decode \<lparr>nvidia_smi = g, lscpu = None\<rparr> config data =
     Inl (CalledProcessError 127 ''lscpu'') \<and>
   get_full_meta decode
       \<lparr>nvidia_smi = g, lscpu = Some \<lparr>returncode = 1, stdout = out, stderr = err\<rparr>\<rparr> config data =
     Inl (CalledProcessError 1 ''lscpu'') \<and>
   get_minibatch_meta decode
       \<lparr>nvidia_smi = g, lscpu = Some \<lparr>returncode = 1, stdout = out, stderr = err\<rparr>\<rparr> config data =
     Inl (CalledProcessError 1 ''lscpu'') \<and>
   get_quiver_meta decode text_decode
       \<lparr>nvidia_smi = g, lscpu = Some \<lparr>returncode = 1, stdout = out, stderr = err\<rparr>\<rparr> config data =
     Inl (CalledProcessError 1 ''lscpu'')"
proof -
  have absent: "get_cpu_model decode \<lparr>nvidia_smi = g, lscpu = None\<rparr> =
      Inl (CalledProcessError 127 ''lscpu'')"
    by (simp add: get_cpu_model_absent)
  have failed: "get_cpu_model decode
        \<lparr>nvidia_smi = g, lscpu = Some \<lparr>returncode = 1, stdout = out, stderr = err\<rparr>\<rparr> =
      Inl (CalledProcessError 1 ''lscpu'')"
    using get_cpu_model_failed
            [of "\<lparr>nvidia_smi = g, lscpu = Some \<lparr>returncode = 1, stdout = out, stderr = err\<rparr>\<rparr>"
                "\<lparr>returncode = 1, stdout = out, stderr = err\<rparr>" decode]
    by simp
  show ?thesis
    by (simp only: absent failed builders_raise_with_cpu_probe [OF absent]
        builders_raise_with_cpu_probe [OF failed])
qed

subsection \<open>The minibatch builder\<close>

lemma get_minibatch_meta_returns:
  assumes "get_cpu_model decode h = Inr cpu_model"
  shows "get_minibatch_meta decode h config data =
           Inr [(''graph_name'', PyStr (graph_name config)),
                (''train_mode'', PyStr ''minibatch''),
                (''num_node'', PyInt (num_nodes (graph data))),
                (''num_edge'', PyInt (num_edges (graph data))),
                (''cpu_model'', PyStr cpu_model),
                (''feat_width'', PyInt (in_feats data)),
                (''batch_size'', PyInt (batch_size config)),
                (''fanouts'', PyList (map PyInt (fanouts config))),
                (''num_epoch'', PyInt (num_epoch config)),
                (''num_partition'', PyInt (num_partition config))]"
  using assms by (simp add: get_minibatch_meta_def setitem_def Let_def)

text \<open>
  Claim C8, as far as the code goes. On a host where the CPU probe returns, the
  minibatch builder returns, for every configuration and every data set, a
  dictionary that holds under \<open>batch_size\<close>, \<open>fanouts\<close> and \<open>graph_name\<close> the
  values of these fields of the configuration, and under \<open>num_node\<close>,
  \<open>num_edge\<close> and \<open>feat_width\<close> the node count and the edge count of the graph
  and the feature width of the data set. So with batch size 1024, fanouts 15, 15,
  15, the graph name \<open>ogbn-arxiv\<close>, 10 nodes, 20 edges and feature width 8 the
  dictionary holds exactly these.
\<close>

theorem get_minibatch_meta_copies:
  assumes "get_cpu_model decode h = Inr cpu_model"
  shows "\<exists>ret. get_minibatch_meta decode h config data = Inr ret \<and>
           map_of ret ''batch_size'' = Some (PyInt (batch_size config)) \<and>
           map_of ret ''fanouts'' = Some (PyList (map PyInt (fanouts config))) \<and>
           map_of ret ''graph_name'' = Some (PyStr (graph_name config)) \<and>
           map_of ret ''num_node'' = Some (PyInt (num_nodes (graph data))) \<and>
           map_of ret ''num_edge'' = Some (PyInt (num_edges (graph data))) \<and>
           map_of ret ''feat_width'' = Some (PyInt (in_feats data)) \<and>
           (batch_size config = 1024 \<and> fanouts config = [15, 15, 15] \<and>
            graph_name config = ''ogbn-arxiv'' \<and> num_nodes (graph data) = 10 \<and>
            num_edges (graph data) = 20 \<and> in_feats data = 8 \<longrightarrow>
            map_of ret ''batch_size'' = Some (PyInt 1024) \<and>
            map_of ret ''fanouts'' = Some (PyList [PyInt 15, PyInt 15, PyInt 15]) \<and>
            map_of ret ''graph_name'' = Some (PyStr ''ogbn-arxiv'') \<and>
            map_of ret ''num_node'' = Some (PyInt 10) \<and>
            map_of ret ''num_edge'' = Some (PyInt 20) \<and>
            map_of ret ''feat_width'' = Some (PyInt 8))"
  unfolding get_minibatch_meta_returns [OF assms]
  by simp

text \<open>
  On the host of the example, with a codec that takes the bytes as they are: the
  configuration of the parser's defaults with the data set of the example, and the
  second configuration with the second data set, whose values all differ.
\<close>

theorem get_minibatch_meta_copies_witness:
  "get_cpu_model Inr good_host = Inr ''Intel(R) Xeon(R)'' \<and>
   (\<exists>ret. get_minibatch_meta Inr good_host (Config_init default_args) small_data = Inr ret \<and>
      map_of ret ''batch_size'' = Some (PyInt 1024) \<and>
      map_of ret ''fanouts'' = Some (PyList [PyInt 15, PyInt 15, PyInt 15]) \<and>
      map_of ret ''graph_name'' = Some (PyStr ''ogbn-arxiv'') \<and>
      map_of ret ''num_node'' = Some (PyInt 10) \<and>
      map_of ret ''num_edge'' = Some (PyInt 20) \<and>
      map_of ret ''feat_width'' = Some (PyInt 8)) \<and>
   (\<exists>ret. get_minibatch_meta Inr good_host other_config other_data = Inr ret \<and>
      map_of ret ''batch_size'' = Some (PyInt 512) \<and>
      map_of ret ''fanouts'' = Some (PyList [PyInt 10, PyInt 5]) \<and>
      map_of ret ''graph_name'' = Some (PyStr ''reddit'') \<and>
      map_of ret ''num_node'' = Some (PyInt 3) \<and>
      map_of ret ''num_edge'' = Some (PyInt 4) \<and>
      map_of ret ''feat_width'' = Some (PyInt 2))"
proof -
  have scenario:
    "batch_size (Config_init default_args) = 1024 \<and>
     fanouts (Config_init default_args) = [15, 15, 15] \<and>
     graph_name (Config_init default_args) = ''ogbn-arxiv'' \<and>
     num_nodes (graph small_data) = 10 \<and> num_edges (graph small_data) = 20 \<and>
     in_feats small_data = 8"
    by (simp add: Config_init_def default_args_def small_data_def)
  have other:
    "batch_size other_config = 512" "fanouts other_config = [10, 5]"
    "graph_name other_config = ''reddit''" "num_nodes (graph other_data) = 3"
    "num_edges (graph other_data) = 4" "in_feats other_data = 2"
    by (simp_all add: other_config_def other_data_def)
  have cpu: "get_cpu_model Inr good_host = Inr ''Intel(R) Xeon(R)''"
    by (simp add: get_cpu_model_def subprocess_check_output_shell_def good_host_def
        bytes_strip_def str_strip_def strip_with_def bytes_isspace_def str_isspace_def
        str_find_def str_slice_from_def str_split_def)
  from get_minibatch_meta_copies [OF cpu, of "Config_init default_args" small_data] scenario
  have 1: "\<exists>ret. get_minibatch_meta Inr good_host (Config_init default_args) small_data = Inr ret \<and>
      map_of ret ''batch_size'' = Some (PyInt 1024) \<and>
      map_of ret ''fanouts'' = Some (PyList [PyInt 15, PyInt 15, PyInt 15]) \<and>
      map_of ret ''graph_name'' = Some (PyStr ''ogbn-arxiv'') \<and>
      map_of ret ''num_node'' = Some (PyInt 10) \<and>
      map_of ret ''num_edge'' = Some (PyInt 20) \<and>
      map_of ret ''feat_width'' = Some (PyInt 8)"
    by blast
  from get_minibatch_meta_copies [OF cpu, of other_config other_data]
  have 2: "\<exists>ret. get_minibatch_meta Inr good_host other_config other_data = Inr ret \<and>
      map_of ret ''batch_size'' = Some (PyInt 512) \<and>
      map_of ret ''fanouts'' = Some (PyList [PyInt 10, PyInt 5]) \<and>
      map_of ret ''graph_name'' = Some (PyStr ''reddit'') \<and>
      map_of ret ''num_node'' = Some (PyInt 3) \<and>
      map_of ret ''num_edge'' = Some (PyInt 4) \<and>
      map_of ret ''feat_width'' = Some (PyInt 2)"
    unfolding other by simp
  from cpu 1 2 show ?thesis by blast
qed

text \<open>
  Claim C8 as it is worded fails on a host without \<open>lscpu\<close>: with the
  configuration and the data set of the example, which have the six values of the
  claim, the builder raises \<open>CalledProcessError\<close> and returns no dictionary.
\<close>

theorem get_minibatch_meta_without_lscpu:
  "batch_size (Config_init default_args) = 1024 \<and>
   fanouts (Config_init default_args) = [15, 15, 15] \<and>
   graph_name (Config_init default_args) = ''ogbn-arxiv'' \<and>
   num_nodes (graph small_data) = 10 \<and>
   num_edges (graph small_data) = 20 \<and>
   in_feats small_data = 8 \<and>
   get_minibatch_meta Inr \<lparr>nvidia_smi = NotInstalled, lscpu = None\<rparr>
       (Config_init default_args) small_data =
     Inl (CalledProcessError 127 ''lscpu'')"
proof -
  have "lscpu \<lparr>nvidia_smi = NotInstalled, lscpu = None\<rparr> = None"
    by simp
  then have "get_cpu_model Inr \<lparr>nvidia_smi = NotInstalled, lscpu = None\<rparr> =
      Inl (CalledProcessError 127 ''lscpu'')"
    by (rule get_cpu_model_absent)
  then have "get_minibatch_meta Inr \<lparr>nvidia_smi = NotInstalled, lscpu = None\<rparr>
       (Config_init default_args) small_data =
     Inl (CalledProcessError 127 ''lscpu'')"
    by (rule builders_raise_with_cpu_probe)
  then show ?thesis
    by (simp add: Config_init_def default_args_def small_data_def)
qed

end
